theory Spec2Isabelle
  imports Main
begin

section \<open>Data model (src/app/page.tsx, lines 10-25)\<close>

text \<open>
  The two interfaces of the source. A field called \<open>id\<close> or \<open>text\<close> cannot keep its name
  (\<open>id\<close> is the identity function of HOL, \<open>text\<close> a command), so both carry the name of
  their interface as a suffix. A string of the source is a sequence of code units; a
  \<open>string\<close> of HOL is a list of 8-bit characters, read here as one code unit each, so the
  strings of the model are those whose code units lie between U+0000 and U+00FF.
\<close>

datatype sender = User | Agent

record message =
  id_msg :: string
  text_msg :: string
  sender :: sender
  timestamp :: string

record conversation =
  id_conv :: string
  title :: string
  messages :: "message list"
  createdAt :: string
  lastMessage :: string

definition AGENT_ID :: string where
  "AGENT_ID = ''6939a09c5a8dda74db9ccca4''"

text \<open>The component's state: the six \<open>useState\<close> cells of lines 35-40.\<close>

record state =
  conversations :: "conversation list"
  currentConversationId :: "string option"
  inputValue :: string
  isLoading :: bool
  sidebarOpen :: bool
  searchQuery :: string

definition initialState :: state where
  "initialState =
     \<lparr>conversations = [], currentConversationId = None, inputValue = [],
      isLoading = False, sidebarOpen = True, searchQuery = []\<rparr>"

section \<open>Platform functions the handlers call\<close>

text \<open>
  \<open>Date.now().toString()\<close>: the clock is an input of every handler that reads it (\<open>now\<close>,
  milliseconds, and \<open>stamp\<close>, the text of \<open>new Date().toISOString()\<close>); \<open>toString\<close> is the
  decimal rendering of a non-negative integer.
\<close>

definition digit :: "nat \<Rightarrow> char" where
  "digit d = ''0123456789'' ! d"

fun toString :: "nat \<Rightarrow> string" where
  "toString n = (if n < 10 then [digit n] else toString (n div 10) @ [digit (n mod 10)])"

declare toString.simps [simp del]

text \<open>
  \<open>String.prototype.trim\<close> strips the white space and the line terminators of
  ECMAScript from both ends. Among the code units up to U+00FF these are tab (U+0009),
  line feed (U+000A), vertical tab (U+000B), form feed (U+000C), carriage return (U+000D),
  space (U+0020) and no-break space (U+00A0); the others (U+1680, U+2000 to U+200A,
  U+2028, U+2029, U+202F, U+205F, U+3000, U+FEFF) lie beyond U+00FF and are no
  character of a \<open>string\<close> of the model.
\<close>

definition isWhitespace :: "char \<Rightarrow> bool" where
  "isWhitespace c =
     (c \<in> set [CHR 0x09, CHR 0x0A, CHR 0x0B, CHR 0x0C, CHR 0x0D, CHR '' '', CHR 0xA0])"

definition trim :: "string \<Rightarrow> string" where
  "trim s = rev (dropWhile isWhitespace (rev (dropWhile isWhitespace s)))"

text \<open>\<open>Array.prototype.join\<close>, and \<open>slice(-n)\<close>: the last \<open>n\<close> entries, all of them when
  the array is shorter.\<close>

fun join :: "string \<Rightarrow> string list \<Rightarrow> string" where
  "join sep [] = []"
| "join sep [x] = x"
| "join sep (x # y # ys) = x @ sep @ join sep (y # ys)"

definition slice_from_end :: "nat \<Rightarrow> 'a list \<Rightarrow> 'a list" where
  "slice_from_end n xs = drop (length xs - n) xs"

section \<open>createNewConversation (lines 69-80), selection (line 276), deleteConversation (lines 217-223)\<close>

definition newConversation :: "nat \<Rightarrow> string \<Rightarrow> conversation" where
  "newConversation now stamp =
     \<lparr>id_conv = toString now, title = ''New Conversation'', messages = [],
      createdAt = stamp, lastMessage = []\<rparr>"

definition createNewConversation :: "nat \<Rightarrow> string \<Rightarrow> state \<Rightarrow> state" where
  "createNewConversation now stamp st =
     st\<lparr>conversations := newConversation now stamp # conversations st,
        currentConversationId := Some (id_conv (newConversation now stamp)),
        inputValue := []\<rparr>"

text \<open>The \<open>onClick\<close> of a row of the side bar: \<open>setCurrentConversationId(conv.id)\<close>.\<close>

definition onClickConversation :: "conversation \<Rightarrow> state \<Rightarrow> state" where
  "onClickConversation conv st = st\<lparr>currentConversationId := Some (id_conv conv)\<rparr>"

definition deleteConversation :: "string \<Rightarrow> state \<Rightarrow> state" where
  "deleteConversation i st =
     (let updated = filter (\<lambda>c. id_conv c \<noteq> i) (conversations st) in
      if currentConversationId st = Some i
      then st\<lparr>conversations := updated,
              currentConversationId := (case updated of [] \<Rightarrow> None | c # _ \<Rightarrow> Some (id_conv c))\<rparr>
      else st\<lparr>conversations := updated\<rparr>)"

section \<open>sendMessage (lines 82-195)\<close>

subsection \<open>The composed message (lines 113-119)\<close>

definition renderLine :: "message \<Rightarrow> string" where
  "renderLine msg = (if sender msg = User then ''User'' else ''Assistant'') @ '': '' @ text_msg msg"

definition context_str :: "message list \<Rightarrow> string" where
  "context_str conversationHistory =
     join [CHR 0x0A] (map renderLine (slice_from_end 10 conversationHistory))"

text \<open>\<open>context ? `${context}\nUser: ${messageText}` : messageText\<close>: a string is truthy
  when it is not empty.\<close>

definition fullMessage :: "message list \<Rightarrow> string \<Rightarrow> string" where
  "fullMessage conversationHistory messageText =
     (if context_str conversationHistory \<noteq> []
      then context_str conversationHistory @ [CHR 0x0A] @ ''User: '' @ messageText
      else messageText)"

subsection \<open>The response of the endpoint and its normalization (lines 133-148)\<close>

text \<open>
  Modelled from the spec: the type of the parsed response body, which the source leaves
  untyped (\<open>data\<close> is \<open>any\<close>). The spec's interface section gives it: every field optional,
  \<open>success\<close> a boolean, \<open>response\<close> a string or an object with the optional fields
  \<open>result\<close>, \<open>answer\<close> and \<open>response\<close>, \<open>raw_response\<close> a string. An absent field
  (\<open>undefined\<close> or \<open>null\<close>) is \<open>None\<close>.
\<close>

datatype payload =
  PString string
| PObject "string option" "string option" "string option"

record agent_data =
  success :: "bool option"
  response :: "payload option"
  raw_response :: "string option"

text \<open>\<open>data.response?.result\<close> and its two siblings: \<open>undefined\<close> when \<open>data.response\<close>
  is absent, and when it is a string (a string has no such property).\<close>

fun response_result :: "payload option \<Rightarrow> string option" where
  "response_result (Some (PObject r a p)) = r"
| "response_result _ = None"

fun response_answer :: "payload option \<Rightarrow> string option" where
  "response_answer (Some (PObject r a p)) = a"
| "response_answer _ = None"

fun response_response :: "payload option \<Rightarrow> string option" where
  "response_response (Some (PObject r a p)) = p"
| "response_response _ = None"

text \<open>\<open>typeof data.response === 'string' ? data.response : null\<close>\<close>

fun response_if_string :: "payload option \<Rightarrow> string option" where
  "response_if_string (Some (PString s)) = Some s"
| "response_if_string _ = None"

text \<open>The operator \<open>||\<close> of JavaScript on these values: the left operand when it is
  truthy (present and not the empty string), the right one otherwise.\<close>

fun truthy :: "string option \<Rightarrow> bool" where
  "truthy (Some s) = (s \<noteq> [])"
| "truthy None = False"

definition or_js :: "string option \<Rightarrow> string option \<Rightarrow> string option" where
  "or_js a b = (if truthy a then a else b)"

text \<open>The end of a chain, \<open>a || 'literal'\<close>, is always a string.\<close>

fun or_literal :: "string option \<Rightarrow> string \<Rightarrow> string" where
  "or_literal (Some s) d = (if s \<noteq> [] then s else d)"
| "or_literal None d = d"

definition agentResponseText :: "agent_data \<Rightarrow> string" where
  "agentResponseText data =
     (if success data = Some True
      then or_literal
             (or_js (or_js (or_js (or_js (response_result (response data))
                                         (response_answer (response data)))
                                  (response_response (response data)))
                           (response_if_string (response data)))
                    (raw_response data))
             ''No response received''
      else or_literal (raw_response data) ''Error processing request'')"

subsection \<open>The three updates of the collection (lines 95-108, 158-169, 180-191)\<close>

definition appendUser :: "string \<Rightarrow> message \<Rightarrow> string \<Rightarrow> conversation \<Rightarrow> conversation" where
  "appendUser cid userMessage messageText conv =
     (if id_conv conv = cid
      then conv\<lparr>messages := messages conv @ [userMessage],
                lastMessage := messageText,
                title := (if length (messages conv) = 0 then take 50 messageText else title conv)\<rparr>
      else conv)"

definition appendAgent :: "string \<Rightarrow> message \<Rightarrow> string \<Rightarrow> conversation \<Rightarrow> conversation" where
  "appendAgent cid agentMessage responseText conv =
     (if id_conv conv = cid
      then conv\<lparr>messages := messages conv @ [agentMessage], lastMessage := responseText\<rparr>
      else conv)"

definition appendError :: "string \<Rightarrow> message \<Rightarrow> conversation \<Rightarrow> conversation" where
  "appendError cid errorMessage conv =
     (if id_conv conv = cid
      then conv\<lparr>messages := messages conv @ [errorMessage], lastMessage := ''Error''\<rparr>
      else conv)"

subsection \<open>The send, in the two halves the \<open>await\<close> cuts it into\<close>

record request =
  message_body :: string
  agent_id :: string
  user_id :: string
  session_id :: string

definition userMessage :: "nat \<Rightarrow> string \<Rightarrow> string \<Rightarrow> message" where
  "userMessage now stamp messageText =
     \<lparr>id_msg = toString now, text_msg = messageText, sender = User, timestamp = stamp\<rparr>"

definition agentMessage :: "nat \<Rightarrow> string \<Rightarrow> string \<Rightarrow> message" where
  "agentMessage now stamp responseText =
     \<lparr>id_msg = toString (now + 1), text_msg = responseText, sender = Agent, timestamp = stamp\<rparr>"

definition errorMessage :: "nat \<Rightarrow> string \<Rightarrow> message" where
  "errorMessage now stamp =
     \<lparr>id_msg = toString (now + 2),
      text_msg = ''Sorry, an error occurred while processing your message. Please try again.'',
      sender = Agent, timestamp = stamp\<rparr>"

text \<open>\<open>currentConversation?.messages || []\<close>, with \<open>currentConversation\<close> the first entry
  of the rendered collection that has the active id (line 67).\<close>

definition conversationHistory :: "string \<Rightarrow> conversation list \<Rightarrow> message list" where
  "conversationHistory cid convs =
     (case find (\<lambda>c. id_conv c = cid) convs of None \<Rightarrow> [] | Some c \<Rightarrow> messages c)"

text \<open>
  Lines 83-131, up to the call of \<open>fetch\<close>. The guard of line 83 returns before any
  \<open>setState\<close>: the state is returned as it was, with no request. \<open>!currentConversationId\<close>
  holds for \<open>null\<close> and for the empty string. An accepted send returns the request it
  posts; its \<open>session_id\<close> is the id the continuation keeps in its closure.
\<close>

definition sendMessage_begin :: "nat \<Rightarrow> string \<Rightarrow> string \<Rightarrow> state \<Rightarrow> state \<times> request option" where
  "sendMessage_begin now stamp messageText st =
     (case currentConversationId st of
        None \<Rightarrow> (st, None)
      | Some cid \<Rightarrow>
          if trim messageText = [] \<or> cid = [] then (st, None)
          else
            (st\<lparr>isLoading := True,
                conversations :=
                  map (appendUser cid (userMessage now stamp messageText) messageText) (conversations st),
                inputValue := []\<rparr>,
             Some \<lparr>message_body = fullMessage (conversationHistory cid (conversations st)) messageText,
                   agent_id = AGENT_ID, user_id = ''chatbot-user'', session_id = cid\<rparr>))"

text \<open>
  What the awaited calls deliver: a parsed body, or an exception (\<open>fetch\<close> rejects,
  \<open>response.json()\<close> rejects, or the body is \<open>null\<close> and \<open>data.success\<close> throws).
\<close>

datatype fetch_result = Resolved agent_data | Thrown

text \<open>
  Lines 133-194, run when the awaited call settles, on the state of that moment
  (\<open>setConversations\<close> takes \<open>prev\<close>). \<open>cid\<close> is the \<open>currentConversationId\<close> of the
  closure, that is the \<open>session_id\<close> of the request; \<open>finally\<close> clears the flag on both
  branches.
\<close>

definition sendMessage_resume :: "nat \<Rightarrow> string \<Rightarrow> string \<Rightarrow> fetch_result \<Rightarrow> state \<Rightarrow> state" where
  "sendMessage_resume now stamp cid r st =
     (case r of
        Resolved data \<Rightarrow>
          st\<lparr>conversations :=
               map (appendAgent cid (agentMessage now stamp (agentResponseText data)) (agentResponseText data))
                   (conversations st),
             isLoading := False\<rparr>
      | Thrown \<Rightarrow>
          st\<lparr>conversations := map (appendError cid (errorMessage now stamp)) (conversations st),
             isLoading := False\<rparr>)"



text \<open>The starter prompts (lines 27-32) and the \<open>onClick\<close> of their buttons (line 350):
  \<open>sendMessage(prompt)\<close>.\<close>

definition STARTER_PROMPTS :: "string list" where
  "STARTER_PROMPTS =
     [''What is machine learning?'',
      ''How can I improve my productivity?'',
      ''Explain quantum computing in simple terms'',
      ''What are best practices for web development?'']"





section \<open>Persistence (lines 44-60)\<close>

text \<open>
  \<open>localStorage\<close> holds one string under the key \<open>chatbot_conversations\<close>.
  \<open>JSON.stringify\<close> and \<open>JSON.parse\<close> belong to the platform; the stored string is
  represented by what \<open>JSON.parse\<close> makes of it: \<open>Serialized cs\<close> is the text
  \<open>JSON.stringify\<close> writes for the collection \<open>cs\<close>, which parses back to \<open>cs\<close>;
  \<open>Malformed s\<close> is a text \<open>s\<close> on which \<open>JSON.parse\<close> throws a \<open>SyntaxError\<close> (the empty
  string among them). Texts that parse to something else than an array of conversations
  are outside this model. Every call of the storage is logged.
\<close>

datatype blob = Serialized "conversation list" | Malformed string

datatype storage_call = GetItem | SetItem blob

record storage =
  item :: "blob option"
  calls :: "storage_call list"

datatype js_error = SyntaxError

text \<open>
  The first effect (lines 44-53). \<open>if (saved)\<close> is false for \<open>null\<close> and for the empty
  string; nothing catches what \<open>JSON.parse\<close> throws.
\<close>

definition loadEffect :: "storage \<Rightarrow> state \<Rightarrow> (js_error + state) \<times> storage" where
  "loadEffect sto st =
     (let sto' = sto\<lparr>calls := calls sto @ [GetItem]\<rparr> in
      case item sto of
        None \<Rightarrow> (Inr st, sto')
      | Some (Malformed s) \<Rightarrow> if s = [] then (Inr st, sto') else (Inl SyntaxError, sto')
      | Some (Serialized parsed) \<Rightarrow>
          (Inr (case parsed of
                  [] \<Rightarrow> st\<lparr>conversations := parsed\<rparr>
                | c # _ \<Rightarrow> st\<lparr>conversations := parsed, currentConversationId := Some (id_conv c)\<rparr>),
           sto'))"

text \<open>The second effect (lines 56-60), run after every render in which \<open>conversations\<close>
  is a new array.\<close>

definition saveEffect :: "conversation list \<Rightarrow> storage \<Rightarrow> storage" where
  "saveEffect convs sto =
     (if length convs > 0
      then sto\<lparr>item := Some (Serialized convs), calls := calls sto @ [SetItem (Serialized convs)]\<rparr>
      else sto)"

text \<open>
  Mounting the component: the first render has the initial state; its effects run in
  the order of the source (load, then save on the empty collection of that render), and
  the render that follows the load runs the save effect on the loaded collection.
\<close>

definition mount :: "storage \<Rightarrow> (js_error + state) \<times> storage" where
  "mount sto =
     (case loadEffect sto initialState of
        (Inl e, sto1) \<Rightarrow> (Inl e, sto1)
      | (Inr st, sto1) \<Rightarrow>
          (Inr st, saveEffect (conversations st) (saveEffect (conversations initialState) sto1)))"

text \<open>
  The mutations of the collection as the running component performs them: the handler,
  then the render it causes, whose save effect sees the new array. A send that line 83
  turns away sets no state, so no render and no effect follow it.
\<close>

datatype mutation =
  Create nat string
| Delete string
| SendBegin nat string string
| SendResume nat string string fetch_result

definition render :: "state \<Rightarrow> storage \<Rightarrow> state \<times> storage" where
  "render st sto = (st, saveEffect (conversations st) sto)"

fun perform :: "mutation \<Rightarrow> state \<times> storage \<Rightarrow> state \<times> storage" where
  "perform (Create now stamp) (st, sto) = render (createNewConversation now stamp st) sto"
| "perform (Delete i) (st, sto) = render (deleteConversation i st) sto"
| "perform (SendBegin now stamp messageText) (st, sto) =
     (case sendMessage_begin now stamp messageText st of
        (st', None) \<Rightarrow> (st', sto)
      | (st', Some req) \<Rightarrow> render st' sto)"
| "perform (SendResume now stamp cid r) (st, sto) = render (sendMessage_resume now stamp cid r st) sto"

text \<open>A mutation is accepted unless it is a send that line 83 turns away.\<close>

fun accepted :: "mutation \<Rightarrow> state \<Rightarrow> bool" where
  "accepted (SendBegin now stamp messageText) st =
     (snd (sendMessage_begin now stamp messageText st) \<noteq> None)"
| "accepted _ st = True"

section \<open>The wording of the specification, for comparison with the code\<close>

text \<open>
  The composer as the specification words it: the trailing ten messages of the history,
  each rendered as a line \<open>Role: text\<close> and ended by a line feed, then the line of the
  new text; the new text alone when there is no history.
\<close>

definition role :: "sender \<Rightarrow> string" where
  "role s = (case s of User \<Rightarrow> ''User'' | Agent \<Rightarrow> ''Assistant'')"

definition trailing :: "nat \<Rightarrow> 'a list \<Rightarrow> 'a list" where
  "trailing n xs = rev (take n (rev xs))"

definition buildContext_spec :: "message list \<Rightarrow> string \<Rightarrow> string" where
  "buildContext_spec history newText =
     (if history = [] then newText
      else concat (map (\<lambda>m. role (sender m) @ '': '' @ text_msg m @ [CHR 0x0A]) (trailing 10 history))
           @ ''User: '' @ newText)"

text \<open>
  The normalization as the specification words it: a list of candidates in the order of
  preference, the first one that is present and not empty wins, a literal otherwise.
\<close>

fun first_non_empty :: "string option list \<Rightarrow> string \<Rightarrow> string" where
  "first_non_empty [] d = d"
| "first_non_empty (None # cs) d = first_non_empty cs d"
| "first_non_empty (Some s # cs) d = (if s = [] then first_non_empty cs d else s)"

definition normalize_spec :: "agent_data \<Rightarrow> string" where
  "normalize_spec data =
     (if success data = Some True
      then first_non_empty
             ((case response data of Some (PObject r a p) \<Rightarrow> [r, a, p] | _ \<Rightarrow> [])
              @ (case response data of Some (PString s) \<Rightarrow> [Some s] | _ \<Rightarrow> [])
              @ [raw_response data])
             ''No response received''
      else first_non_empty [raw_response data] ''Error processing request'')"

text \<open>The message that follows a send: the reply when the call resolved, the fixed
  apology when it threw.\<close>

definition followUp :: "nat \<Rightarrow> string \<Rightarrow> fetch_result \<Rightarrow> message" where
  "followUp now stamp r =
     (case r of
        Resolved data \<Rightarrow> agentMessage now stamp (agentResponseText data)
      | Thrown \<Rightarrow> errorMessage now stamp)"

text \<open>The number of messages of one sender in the whole collection.\<close>

definition count_sender :: "sender \<Rightarrow> conversation list \<Rightarrow> nat" where
  "count_sender s convs =
     sum_list (map (\<lambda>c. length (filter (\<lambda>m. sender m = s) (messages c))) convs)"

text \<open>The invariant the specification states for \<open>lastMessage\<close>.\<close>

definition lastMessage_mirror :: "conversation \<Rightarrow> bool" where
  "lastMessage_mirror c =
     (lastMessage c = (if messages c = [] then [] else text_msg (last (messages c))))"

text \<open>A run of appends on one conversation, each by the callback of its kind.\<close>

datatype append = UserAppend message string | AgentAppend message string | ErrorAppend message

fun applyAppend :: "string \<Rightarrow> append \<Rightarrow> conversation \<Rightarrow> conversation" where
  "applyAppend cid (UserAppend m messageText) c = appendUser cid m messageText c"
| "applyAppend cid (AgentAppend m responseText) c = appendAgent cid m responseText c"
| "applyAppend cid (ErrorAppend m) c = appendError cid m c"

section \<open>Concrete inputs\<close>

abbreviation (input) conv1 :: conversation where
  "conv1 \<equiv> \<lparr>id_conv = ''1'', title = ''New Conversation'', messages = [],
             createdAt = ''t0'', lastMessage = []\<rparr>"

abbreviation (input) conv2 :: conversation where
  "conv2 \<equiv> \<lparr>id_conv = ''2'', title = ''New Conversation'', messages = [],
             createdAt = ''t0'', lastMessage = []\<rparr>"

abbreviation (input) state1 :: state where
  "state1 \<equiv> \<lparr>conversations = [conv1], currentConversationId = Some ''1'', inputValue = ''hi'',
              isLoading = False, sidebarOpen = True, searchQuery = []\<rparr>"

abbreviation (input) state12 :: state where
  "state12 \<equiv> \<lparr>conversations = [conv1, conv2], currentConversationId = Some ''1'',
               inputValue = ''hi'', isLoading = False, sidebarOpen = True, searchQuery = []\<rparr>"

abbreviation (input) hi :: message where
  "hi \<equiv> \<lparr>id_msg = ''5'', text_msg = ''hi'', sender = User, timestamp = ''t1''\<rparr>"

abbreviation (input) yo :: message where
  "yo \<equiv> \<lparr>id_msg = ''10'', text_msg = ''yo'', sender = Agent, timestamp = ''t2''\<rparr>"

abbreviation (input) apology :: string where
  "apology \<equiv> ''Sorry, an error occurred while processing your message. Please try again.''"

abbreviation (input) conv1_hi :: conversation where
  "conv1_hi \<equiv> \<lparr>id_conv = ''1'', title = ''hi'', messages = [hi],
                createdAt = ''t0'', lastMessage = ''hi''\<rparr>"

abbreviation (input) sent1 :: state where
  "sent1 \<equiv> \<lparr>conversations = [conv1_hi], currentConversationId = Some ''1'', inputValue = [],
             isLoading = True, sidebarOpen = True, searchQuery = []\<rparr>"

abbreviation (input) sent12 :: state where
  "sent12 \<equiv> \<lparr>conversations = [conv1_hi, conv2], currentConversationId = Some ''1'',
              inputValue = [], isLoading = True, sidebarOpen = True, searchQuery = []\<rparr>"

abbreviation (input) request1 :: request where
  "request1 \<equiv> \<lparr>message_body = ''hi'', agent_id = AGENT_ID, user_id = ''chatbot-user'',
                session_id = ''1''\<rparr>"

abbreviation (input) replied :: agent_data where
  "replied \<equiv> \<lparr>success = Some True, response = Some (PString ''yo''), raw_response = None\<rparr>"

section \<open>Facts about the platform functions and the callbacks\<close>

lemma trailing_slice: "trailing n xs = slice_from_end n xs"
  by (simp add: trailing_def slice_from_end_def rev_take)

lemma join_concat:
  "xs \<noteq> [] \<Longrightarrow> join sep xs @ sep @ rest = concat (map (\<lambda>x. x @ sep) xs) @ rest"
  by (induction sep xs rule: join.induct) simp_all

lemma join_nonempty: "xs \<noteq> [] \<Longrightarrow> hd xs \<noteq> [] \<Longrightarrow> join sep xs \<noteq> []"
  by (induction sep xs rule: join.induct) simp_all

lemma renderLine_role: "renderLine m = role (sender m) @ '': '' @ text_msg m"
  by (cases "sender m") (simp_all add: renderLine_def role_def)

lemma slice_nonempty: "xs \<noteq> [] \<Longrightarrow> slice_from_end (Suc n) xs \<noteq> []"
  by (cases xs) (simp_all add: slice_from_end_def)

lemma context_str_empty: "(context_str h = []) = (h = [])"
proof
  assume "h = []"
  then show "context_str h = []"
    by (simp add: context_str_def slice_from_end_def)
next
  assume e: "context_str h = []"
  show "h = []"
  proof (rule ccontr)
    assume "h \<noteq> []"
    then have ne: "slice_from_end 10 h \<noteq> []"
      using slice_nonempty [of h 9] by simp
    then have "hd (map renderLine (slice_from_end 10 h)) \<noteq> []"
      by (simp add: hd_map renderLine_def)
    with ne have "join [CHR 0x0A] (map renderLine (slice_from_end 10 h)) \<noteq> []"
      by (intro join_nonempty) simp_all
    with e show False by (simp add: context_str_def)
  qed
qed

lemma fullMessage_spec: "fullMessage h t = buildContext_spec h t"
proof (cases "h = []")
  case True
  then show ?thesis by (simp add: fullMessage_def buildContext_spec_def context_str_empty)
next
  case False
  then have ne: "map renderLine (slice_from_end 10 h) \<noteq> []"
    using slice_nonempty [of h 9] by simp
  have "context_str h @ [CHR 0x0A] @ (''User: '' @ t)
          = concat (map (\<lambda>x. x @ [CHR 0x0A]) (map renderLine (slice_from_end 10 h))) @ (''User: '' @ t)"
    unfolding context_str_def by (rule join_concat [OF ne])
  with False show ?thesis
    by (simp add: fullMessage_def buildContext_spec_def context_str_empty trailing_slice
        renderLine_role comp_def)
qed

lemma or_literal_first: "or_literal a d = first_non_empty [a] d"
  by (cases a) auto

lemma first_non_empty_or_js:
  "first_non_empty (or_js a b # cs) d = first_non_empty (a # b # cs) d"
  by (cases a; cases b) (auto simp: or_js_def)

lemma filter_map_others:
  assumes "\<And>c. k c = a \<Longrightarrow> k (f c) = a"
  shows "filter (\<lambda>c. k c \<noteq> a) (map (\<lambda>c. if k c = a then f c else c) xs)
           = filter (\<lambda>c. k c \<noteq> a) xs"
  using assms by (induction xs) auto

text \<open>What an accepted send is, read off the guard of line 83.\<close>

lemma begin_accepted:
  assumes "sendMessage_begin now stamp messageText st = (st1, Some req)"
  shows "currentConversationId st = Some (session_id req)"
    and "trim messageText \<noteq> []"
    and "session_id req \<noteq> []"
    and "conversations st1 =
           map (appendUser (session_id req) (userMessage now stamp messageText) messageText)
               (conversations st)"
    and "message_body req =
           fullMessage (conversationHistory (session_id req) (conversations st)) messageText"
    and "isLoading st1"
  using assms
  by (auto simp: sendMessage_begin_def split: option.splits if_splits)

lemma resume_conversations:
  "conversations (sendMessage_resume now stamp cid r st) =
     map (\<lambda>c. if id_conv c = cid
               then c\<lparr>messages := messages c @ [followUp now stamp r],
                      lastMessage := (case r of Resolved data \<Rightarrow> agentResponseText data
                                      | Thrown \<Rightarrow> ''Error'')\<rparr>
               else c)
         (conversations st)"
  by (cases r)
    (auto simp: sendMessage_resume_def followUp_def appendAgent_def appendError_def)

lemma resume_ignores_selection:
  "conversations (sendMessage_resume now stamp cid r (st\<lparr>currentConversationId := sel\<rparr>)) =
     conversations (sendMessage_resume now stamp cid r st)"
  by (cases r) (simp_all add: sendMessage_resume_def)

lemma list_all_filter_map:
  assumes "\<And>c. P (f c) \<Longrightarrow> Q (f c)"
  shows "list_all Q (filter P (map f cs))"
  using assms by (induction cs) auto

lemma list_all_map_keeps:
  assumes "\<And>c. Q c \<Longrightarrow> Q (f c)" and "list_all Q cs"
  shows "list_all Q (map f cs)"
  using assms by (induction cs) auto

lemma count_sender_update:
  assumes "distinct (map id_conv cs)"
    and "\<And>c. id_conv c = cid \<Longrightarrow>
           length (filter (\<lambda>m. sender m = s) (messages (f c)))
             = length (filter (\<lambda>m. sender m = s) (messages c)) + d"
  shows "count_sender s (map (\<lambda>c. if id_conv c = cid then f c else c) cs)
           = count_sender s cs + (if cid \<in> set (map id_conv cs) then d else 0)"
  using assms(1)
proof (induction cs)
  case Nil
  then show ?case by (simp add: count_sender_def)
next
  case (Cons c cs)
  then have IH: "count_sender s (map (\<lambda>c. if id_conv c = cid then f c else c) cs)
           = count_sender s cs + (if cid \<in> set (map id_conv cs) then d else 0)"
    and fresh: "id_conv c \<notin> set (map id_conv cs)"
    by simp_all
  show ?case
  proof (cases "id_conv c = cid")
    case True
    with fresh have "cid \<notin> set (map id_conv cs)" by simp
    with IH True assms(2) [of c] show ?thesis
      by (simp add: count_sender_def)
  next
    case False
    with IH show ?thesis
      by (simp add: count_sender_def)
  qed
qed

lemma appendUser_if:
  "appendUser cid m t =
     (\<lambda>c. if id_conv c = cid
          then c\<lparr>messages := messages c @ [m], lastMessage := t,
                 title := (if length (messages c) = 0 then take 50 t else title c)\<rparr>
          else c)"
  by (rule ext) (simp add: appendUser_def)

lemma followUp_sender: "sender (followUp now stamp r) = Agent"
  by (cases r) (simp_all add: followUp_def agentMessage_def errorMessage_def)

lemma map_if_absent:
  "a \<notin> set (map k xs) \<Longrightarrow> map (\<lambda>c. if k c = a then f c else c) xs = xs"
  by (induction xs) auto

lemma applyAppend_nonempty:
  "messages c \<noteq> [] \<Longrightarrow>
     messages (applyAppend cid a c) \<noteq> [] \<and> title (applyAppend cid a c) = title c"
  by (cases a) (simp_all add: appendUser_def appendAgent_def appendError_def)

lemma title_fold_nonempty:
  "messages c \<noteq> [] \<Longrightarrow> title (fold (applyAppend cid) ops c) = title c"
proof (induction ops arbitrary: c)
  case Nil
  then show ?case by simp
next
  case (Cons a ops)
  from applyAppend_nonempty [OF Cons.prems, of cid a]
  have ne: "messages (applyAppend cid a c) \<noteq> []"
    and t: "title (applyAppend cid a c) = title c"
    by simp_all
  from Cons.IH [OF ne] t show ?case by simp
qed

lemma fold_other_conversation:
  "id_conv c \<noteq> cid \<Longrightarrow> fold (applyAppend cid) ops c = c"
proof (induction ops)
  case Nil
  then show ?case by simp
next
  case (Cons a ops)
  then have "applyAppend cid a c = c"
    by (cases a) (simp_all add: appendUser_def appendAgent_def appendError_def)
  with Cons show ?case by simp
qed

lemma conversationHistory_first:
  "cid \<notin> set (map id_conv pre) \<Longrightarrow> id_conv c = cid \<Longrightarrow>
     conversationHistory cid (pre @ c # post) = messages c"
  by (induction pre) (auto simp: conversationHistory_def)

lemma conversationHistory_absent:
  "cid \<notin> set (map id_conv cs) \<Longrightarrow> conversationHistory cid cs = []"
  by (induction cs) (auto simp: conversationHistory_def)


section \<open>The claims\<close>

text \<open>
  C6. For every response of the endpoint the normalized text is the first candidate, in
  the fixed order, that is present and not empty: \<open>response.result\<close>, \<open>response.answer\<close>,
  \<open>response.response\<close>, the payload itself when it is a string, \<open>raw_response\<close>, and the
  literal \<open>No response received\<close> last, when the response is marked successful;
  \<open>raw_response\<close>, else the literal \<open>Error processing request\<close>, when it is not. The two
  responses of scenario D normalize to \<open>X\<close> and to \<open>No response received\<close>.
\<close>

theorem normalization_precedence:
  "agentResponseText data = normalize_spec data
   \<and> agentResponseText \<lparr>success = Some True, response = Some (PObject (Some ''X'') None None),
                          raw_response = None\<rparr> = ''X''
   \<and> agentResponseText \<lparr>success = Some True, response = Some (PObject None None None),
                          raw_response = None\<rparr> = ''No response received''"
proof -
  have general: "agentResponseText data = normalize_spec data"
  proof (cases "response data")
    case None
    then show ?thesis
      by (simp add: agentResponseText_def normalize_spec_def or_literal_first first_non_empty_or_js)
  next
    case (Some p)
    show ?thesis
    proof (cases p)
      case (PString s)
      with Some show ?thesis
        by (simp add: agentResponseText_def normalize_spec_def or_literal_first first_non_empty_or_js)
    next
      case (PObject r a q)
      with Some show ?thesis
        by (cases r; cases a; cases q)
          (simp_all add: agentResponseText_def normalize_spec_def or_literal_first first_non_empty_or_js)
    qed
  qed
  have ex1: "agentResponseText \<lparr>success = Some True, response = Some (PObject (Some ''X'') None None),
                          raw_response = None\<rparr> = ''X''"
    by (simp add: agentResponseText_def or_js_def)
  have ex2: "agentResponseText \<lparr>success = Some True, response = Some (PObject None None None),
                          raw_response = None\<rparr> = ''No response received''"
    by (simp add: agentResponseText_def or_js_def)
  from general ex1 ex2 show ?thesis by blast
qed

text \<open>
  C7. The message an accepted send posts is the composer's text for the new input and
  the history of the active conversation, the first entry of the collection that carries
  the active id, as the collection held it before the user message was appended (the
  state the send was called on; the appended message is in the state the send leaves,
  not in the history composed): at most the trailing ten messages, one line
  \<open>User: text\<close> or \<open>Assistant: text\<close> each, then the line \<open>User: newText\<close>; the new
  text alone when that history is empty or no entry carries the active id.
\<close>

theorem composed_context:
  assumes "sendMessage_begin now stamp messageText st = (st1, Some req)"
  shows "currentConversationId st = Some (session_id req)
       \<and> (\<forall>pre c post.
             conversations st = pre @ c # post \<and> session_id req \<notin> set (map id_conv pre)
             \<and> id_conv c = session_id req
             \<longrightarrow> message_body req = buildContext_spec (messages c) messageText
                 \<and> messages (conversations st1 ! length pre)
                     = messages c @ [userMessage now stamp messageText]
                 \<and> length (trailing 10 (messages c)) \<le> 10)
       \<and> (session_id req \<notin> set (map id_conv (conversations st))
            \<longrightarrow> message_body req = messageText)
       \<and> message_body req =
           buildContext_spec (conversationHistory (session_id req) (conversations st)) messageText
       \<and> length (trailing 10 (conversationHistory (session_id req) (conversations st))) \<le> 10
       \<and> buildContext_spec [] messageText = messageText"
proof -
  have body: "message_body req =
          buildContext_spec (conversationHistory (session_id req) (conversations st)) messageText"
    using begin_accepted(5) [OF assms] by (simp add: fullMessage_spec)
  have active: "currentConversationId st = Some (session_id req)"
    by (rule begin_accepted(1) [OF assms])
  have empty: "buildContext_spec [] messageText = messageText"
    by (simp add: buildContext_spec_def)
  have found: "\<forall>pre c post.
             conversations st = pre @ c # post \<and> session_id req \<notin> set (map id_conv pre)
             \<and> id_conv c = session_id req
             \<longrightarrow> message_body req = buildContext_spec (messages c) messageText
                 \<and> messages (conversations st1 ! length pre)
                     = messages c @ [userMessage now stamp messageText]
                 \<and> length (trailing 10 (messages c)) \<le> 10"
  proof (intro allI impI)
    fix pre c post
    assume h: "conversations st = pre @ c # post \<and> session_id req \<notin> set (map id_conv pre)
             \<and> id_conv c = session_id req"
    then have "conversationHistory (session_id req) (conversations st) = messages c"
      using conversationHistory_first [of "session_id req" pre c post] by simp
    with body have b: "message_body req = buildContext_spec (messages c) messageText"
      by simp
    from h begin_accepted(4) [OF assms]
    have "conversations st1 ! length pre
            = appendUser (session_id req) (userMessage now stamp messageText) messageText c"
      by (simp add: nth_append)
    with h have a: "messages (conversations st1 ! length pre)
                     = messages c @ [userMessage now stamp messageText]"
      by (simp add: appendUser_def)
    have "length (trailing 10 (messages c)) \<le> 10"
      by (simp add: trailing_def)
    with a b show "message_body req = buildContext_spec (messages c) messageText
                 \<and> messages (conversations st1 ! length pre)
                     = messages c @ [userMessage now stamp messageText]
                 \<and> length (trailing 10 (messages c)) \<le> 10"
      by simp
  qed
  have missing: "session_id req \<notin> set (map id_conv (conversations st))
            \<longrightarrow> message_body req = messageText"
    using body empty by (auto simp: conversationHistory_absent)
  have bound: "length (trailing 10 (conversationHistory (session_id req) (conversations st))) \<le> 10"
    by (simp add: trailing_def)
  from active found missing body bound empty show ?thesis by blast
qed

theorem composed_context_witness:
  "sendMessage_begin 15 ''t3'' ''again''
     (state12\<lparr>conversations :=
                [conv1\<lparr>title := ''hi'', messages := [hi, yo], lastMessage := ''yo''\<rparr>,
                 conv2\<lparr>title := ''yo'', messages := [yo, hi, hi, hi, hi, hi, hi, hi, hi, hi, hi],
                       lastMessage := ''hi''\<rparr>],
               currentConversationId := Some ''2''\<rparr>)
     = (state12\<lparr>conversations :=
                  [conv1\<lparr>title := ''hi'', messages := [hi, yo], lastMessage := ''yo''\<rparr>,
                   conv2\<lparr>title := ''yo'',
                         messages := [yo, hi, hi, hi, hi, hi, hi, hi, hi, hi, hi,
                                      \<lparr>id_msg = ''15'', text_msg = ''again'', sender = User,
                                       timestamp = ''t3''\<rparr>],
                         lastMessage := ''again''\<rparr>],
                currentConversationId := Some ''2'', inputValue := [], isLoading := True\<rparr>,
        Some \<lparr>message_body = concat (replicate 10 (''User: hi'' @ [CHR 0x0A])) @ ''User: again'',
              agent_id = AGENT_ID, user_id = ''chatbot-user'', session_id = ''2''\<rparr>)
   \<and> concat (replicate 10 (''User: hi'' @ [CHR 0x0A])) @ ''User: again''
       = buildContext_spec [yo, hi, hi, hi, hi, hi, hi, hi, hi, hi, hi] ''again''"
proof -
  have run: "sendMessage_begin 15 ''t3'' ''again''
     (state12\<lparr>conversations :=
                [conv1\<lparr>title := ''hi'', messages := [hi, yo], lastMessage := ''yo''\<rparr>,
                 conv2\<lparr>title := ''yo'', messages := [yo, hi, hi, hi, hi, hi, hi, hi, hi, hi, hi],
                       lastMessage := ''hi''\<rparr>],
               currentConversationId := Some ''2''\<rparr>)
     = (state12\<lparr>conversations :=
                  [conv1\<lparr>title := ''hi'', messages := [hi, yo], lastMessage := ''yo''\<rparr>,
                   conv2\<lparr>title := ''yo'',
                         messages := [yo, hi, hi, hi, hi, hi, hi, hi, hi, hi, hi,
                                      \<lparr>id_msg = ''15'', text_msg = ''again'', sender = User,
                                       timestamp = ''t3''\<rparr>],
                         lastMessage := ''again''\<rparr>],
                currentConversationId := Some ''2'', inputValue := [], isLoading := True\<rparr>,
        Some \<lparr>message_body = concat (replicate 10 (''User: hi'' @ [CHR 0x0A])) @ ''User: again'',
              agent_id = AGENT_ID, user_id = ''chatbot-user'', session_id = ''2''\<rparr>)"
    by code_simp
  from composed_context [OF run]
  have "\<forall>pre c post.
          [conv1\<lparr>title := ''hi'', messages := [hi, yo], lastMessage := ''yo''\<rparr>,
           conv2\<lparr>title := ''yo'', messages := [yo, hi, hi, hi, hi, hi, hi, hi, hi, hi, hi],
                 lastMessage := ''hi''\<rparr>] = pre @ c # post
          \<and> ''2'' \<notin> set (map id_conv pre) \<and> id_conv c = ''2''
          \<longrightarrow> concat (replicate 10 (''User: hi'' @ [CHR 0x0A])) @ ''User: again''
                = buildContext_spec (messages c) ''again''"
    unfolding request.simps state.simps by blast
  from this [rule_format,
      of "[conv1\<lparr>title := ''hi'', messages := [hi, yo], lastMessage := ''yo''\<rparr>]"
         "conv2\<lparr>title := ''yo'', messages := [yo, hi, hi, hi, hi, hi, hi, hi, hi, hi, hi],
                lastMessage := ''hi''\<rparr>" "[]"]
  have "concat (replicate 10 (''User: hi'' @ [CHR 0x0A])) @ ''User: again''
       = buildContext_spec [yo, hi, hi, hi, hi, hi, hi, hi, hi, hi, hi] ''again''"
    by simp
  with run show ?thesis by (rule conjI)
qed

text \<open>
  C9. Whatever the awaited call delivers, a reply or an exception, and whatever the
  state is by then, the busy flag is false once the continuation of the send has run.
\<close>

theorem busy_flag_released:
  "isLoading (sendMessage_resume now stamp cid r st) = False"
  by (cases r) (simp_all add: sendMessage_resume_def)

text \<open>
  C10, as the claim states it, fails when the conversation that was active at the start
  is deleted while the send is in flight: the follow-up is then appended to no
  conversation at all.
\<close>

theorem reply_target_counterexample:
  "sendMessage_begin 5 ''t1'' ''hi'' state12 = (sent12, Some request1)
   \<and> conversations (deleteConversation ''1'' sent12) = [conv2]
   \<and> conversations (sendMessage_resume 9 ''t2'' ''1'' Thrown (deleteConversation ''1'' sent12))
       = [conv2]
   \<and> followUp 9 ''t2'' Thrown \<notin> set (concat (map messages [conv2]))"
  by (simp add: sendMessage_begin_def trim_def isWhitespace_def appendUser_def userMessage_def
      toString.simps digit_def conversationHistory_def fullMessage_def context_str_def
      slice_from_end_def deleteConversation_def sendMessage_resume_def appendError_def)

text \<open>
  C10, amended. An accepted send posts the id that was active when it began as
  \<open>session_id\<close>, and its continuation, on whatever state the collection has when the call
  settles, appends the follow-up message to every conversation that carries that id
  then, and changes no other conversation; the selection of that later state plays no
  part, so selecting another conversation in the meantime does not redirect the reply.
  When no conversation carries that id any more, the collection is left as it is and
  the follow-up is appended nowhere.
\<close>

theorem reply_goes_to_sending_conversation:
  assumes "sendMessage_begin now stamp messageText st = (st1, Some req)"
  shows "currentConversationId st = Some (session_id req)
       \<and> map id_conv (conversations (sendMessage_resume now' stamp' (session_id req) r st2))
           = map id_conv (conversations st2)
       \<and> map messages (conversations (sendMessage_resume now' stamp' (session_id req) r st2))
           = map (\<lambda>c. if id_conv c = session_id req
                       then messages c @ [followUp now' stamp' r] else messages c)
                 (conversations st2)
       \<and> filter (\<lambda>c. id_conv c \<noteq> session_id req)
             (conversations (sendMessage_resume now' stamp' (session_id req) r st2))
           = filter (\<lambda>c. id_conv c \<noteq> session_id req) (conversations st2)
       \<and> conversations (sendMessage_resume now' stamp' (session_id req) r
                          (st2\<lparr>currentConversationId := sel\<rparr>))
           = conversations (sendMessage_resume now' stamp' (session_id req) r st2)
       \<and> (session_id req \<notin> set (map id_conv (conversations st2))
            \<longrightarrow> conversations (sendMessage_resume now' stamp' (session_id req) r st2)
                 = conversations st2)"
proof -
  have a: "currentConversationId st = Some (session_id req)"
    by (rule begin_accepted(1) [OF assms])
  have b: "map id_conv (conversations (sendMessage_resume now' stamp' (session_id req) r st2))
           = map id_conv (conversations st2)"
    by (simp add: resume_conversations comp_def)
  have c: "map messages (conversations (sendMessage_resume now' stamp' (session_id req) r st2))
           = map (\<lambda>c. if id_conv c = session_id req
                       then messages c @ [followUp now' stamp' r] else messages c)
                 (conversations st2)"
    by (simp add: resume_conversations comp_def)
  have d: "filter (\<lambda>c. id_conv c \<noteq> session_id req)
             (conversations (sendMessage_resume now' stamp' (session_id req) r st2))
           = filter (\<lambda>c. id_conv c \<noteq> session_id req) (conversations st2)"
    unfolding resume_conversations by (rule filter_map_others) simp
  have e: "session_id req \<notin> set (map id_conv (conversations st2))
            \<longrightarrow> conversations (sendMessage_resume now' stamp' (session_id req) r st2)
                 = conversations st2"
    unfolding resume_conversations by (rule impI) (rule map_if_absent)
  from a b c d e resume_ignores_selection show ?thesis by blast
qed

theorem reply_goes_to_sending_conversation_witness:
  "sendMessage_begin 5 ''t1'' ''hi'' state12 = (sent12, Some request1)
   \<and> currentConversationId (onClickConversation conv2 sent12) = Some ''2''
   \<and> map messages (conversations
         (sendMessage_resume 9 ''t2'' ''1'' (Resolved replied) (onClickConversation conv2 sent12)))
       = [[hi, yo], []]
   \<and> ''1'' \<notin> set (map id_conv (conversations (deleteConversation ''1'' sent12)))
   \<and> conversations (sendMessage_resume 9 ''t2'' ''1'' (Resolved replied)
                       (deleteConversation ''1'' sent12))
       = conversations (deleteConversation ''1'' sent12)"
proof -
  have run: "sendMessage_begin 5 ''t1'' ''hi'' state12 = (sent12, Some request1)"
    by (simp add: sendMessage_begin_def trim_def isWhitespace_def appendUser_def userMessage_def
        toString.simps digit_def conversationHistory_def fullMessage_def context_str_def
        slice_from_end_def)
  have reply: "followUp 9 ''t2'' (Resolved replied) = yo"
    by (simp add: followUp_def agentMessage_def agentResponseText_def or_js_def
        toString.simps digit_def)
  have gone: "''1'' \<notin> set (map id_conv (conversations (deleteConversation ''1'' sent12)))"
    by (simp add: deleteConversation_def)
  from reply_goes_to_sending_conversation
         [OF run, of 9 "''t2''" "Resolved replied" "onClickConversation conv2 sent12"]
  have "map messages (conversations
          (sendMessage_resume 9 ''t2'' ''1'' (Resolved replied) (onClickConversation conv2 sent12)))
        = map (\<lambda>c. if id_conv c = ''1'' then messages c @ [followUp 9 ''t2'' (Resolved replied)]
                    else messages c)
              (conversations (onClickConversation conv2 sent12))"
    by simp
  with reply have appended: "map messages (conversations
         (sendMessage_resume 9 ''t2'' ''1'' (Resolved replied) (onClickConversation conv2 sent12)))
       = [[hi, yo], []]"
    by (simp add: onClickConversation_def)
  from reply_goes_to_sending_conversation
         [OF run, where ?st2.0 = "deleteConversation ''1'' sent12" and now' = 9
            and stamp' = "''t2''" and r = "Resolved replied"] gone
  have dropped: "conversations (sendMessage_resume 9 ''t2'' ''1'' (Resolved replied)
                       (deleteConversation ''1'' sent12))
       = conversations (deleteConversation ''1'' sent12)"
    by simp
  have sel: "currentConversationId (onClickConversation conv2 sent12) = Some ''2''"
    by (simp add: onClickConversation_def)
  from run sel appended gone dropped show ?thesis by blast
qed

text \<open>
  C1, as the specification states it, fails on the error branch: after the error append
  the conversation's last message carries the apology while \<open>lastMessage\<close> is the
  marker \<open>Error\<close>.
\<close>

theorem lastMessage_mirror_counterexample:
  "conversations (sendMessage_resume 9 ''t2'' ''1'' Thrown sent1)
     = [conv1_hi\<lparr>messages := [hi, \<lparr>id_msg = ''11'', text_msg = apology, sender = Agent,
                                      timestamp = ''t2''\<rparr>],
                 lastMessage := ''Error''\<rparr>]
   \<and> \<not> lastMessage_mirror
         (conv1_hi\<lparr>messages := [hi, \<lparr>id_msg = ''11'', text_msg = apology, sender = Agent,
                                        timestamp = ''t2''\<rparr>],
                   lastMessage := ''Error''\<rparr>)"
  by (simp add: sendMessage_resume_def appendError_def errorMessage_def toString.simps digit_def
      lastMessage_mirror_def)

text \<open>
  C1, amended. After the user append of an accepted send and after the append of a
  reply, every conversation that received the message is not empty and its \<open>lastMessage\<close>
  is the text of its final message, and a collection all of whose conversations had the
  invariant keeps it. After the error append the receiving conversations have the marker
  \<open>Error\<close> as \<open>lastMessage\<close> and the fixed apology as the text of the final message. A
  conversation just created has no message and the empty \<open>lastMessage\<close>.
\<close>

theorem lastMessage_after_append:
  assumes "sendMessage_begin now stamp messageText st = (st1, Some req)"
  shows "list_all (\<lambda>c. messages c \<noteq> [] \<and> lastMessage c = text_msg (last (messages c)))
           (filter (\<lambda>c. id_conv c = session_id req) (conversations st1))
       \<and> list_all (\<lambda>c. messages c \<noteq> [] \<and> lastMessage c = text_msg (last (messages c)))
           (filter (\<lambda>c. id_conv c = cid)
              (conversations (sendMessage_resume now' stamp' cid (Resolved data) st2)))
       \<and> list_all (\<lambda>c. lastMessage c = ''Error''
                      \<and> text_msg (last (messages c)) =
                          ''Sorry, an error occurred while processing your message. Please try again.'')
           (filter (\<lambda>c. id_conv c = cid)
              (conversations (sendMessage_resume now' stamp' cid Thrown st2)))
       \<and> (list_all lastMessage_mirror (conversations st)
            \<longrightarrow> list_all lastMessage_mirror (conversations st1))
       \<and> (list_all lastMessage_mirror (conversations st2)
            \<longrightarrow> list_all lastMessage_mirror
                  (conversations (sendMessage_resume now' stamp' cid (Resolved data) st2)))
       \<and> lastMessage_mirror (newConversation now stamp)
       \<and> messages (newConversation now stamp) = []
       \<and> lastMessage (newConversation now stamp) = []"
proof -
  note st1 = begin_accepted(4) [OF assms]
  have a: "list_all (\<lambda>c. messages c \<noteq> [] \<and> lastMessage c = text_msg (last (messages c)))
           (filter (\<lambda>c. id_conv c = session_id req) (conversations st1))"
    unfolding st1 by (rule list_all_filter_map) (simp add: appendUser_def userMessage_def split: if_splits)
  have b: "list_all (\<lambda>c. messages c \<noteq> [] \<and> lastMessage c = text_msg (last (messages c)))
           (filter (\<lambda>c. id_conv c = cid)
              (conversations (sendMessage_resume now' stamp' cid (Resolved data) st2)))"
    unfolding sendMessage_resume_def
    by (simp, rule list_all_filter_map) (simp add: appendAgent_def agentMessage_def split: if_splits)
  have c: "list_all (\<lambda>c. lastMessage c = ''Error''
                      \<and> text_msg (last (messages c)) =
                          ''Sorry, an error occurred while processing your message. Please try again.'')
           (filter (\<lambda>c. id_conv c = cid)
              (conversations (sendMessage_resume now' stamp' cid Thrown st2)))"
    unfolding sendMessage_resume_def
    by (simp, rule list_all_filter_map) (simp add: appendError_def errorMessage_def split: if_splits)
  have d: "list_all lastMessage_mirror (conversations st)
            \<longrightarrow> list_all lastMessage_mirror (conversations st1)"
    unfolding st1
    by (rule impI, rule list_all_map_keeps)
      (simp_all add: lastMessage_mirror_def appendUser_def userMessage_def)
  have e: "list_all lastMessage_mirror (conversations st2)
            \<longrightarrow> list_all lastMessage_mirror
                  (conversations (sendMessage_resume now' stamp' cid (Resolved data) st2))"
    unfolding sendMessage_resume_def
    by (simp, rule impI, rule list_all_map_keeps)
      (simp_all add: lastMessage_mirror_def appendAgent_def agentMessage_def)
  have f: "lastMessage_mirror (newConversation now stamp)
       \<and> messages (newConversation now stamp) = []
       \<and> lastMessage (newConversation now stamp) = []"
    by (simp add: lastMessage_mirror_def newConversation_def)
  from a b c d e f show ?thesis by blast
qed

theorem lastMessage_after_append_witness:
  "sendMessage_begin 5 ''t1'' ''hi'' state1 = (sent1, Some request1)
   \<and> list_all lastMessage_mirror (conversations state1)
   \<and> list_all lastMessage_mirror (conversations sent1)
   \<and> list_all lastMessage_mirror
        (conversations (sendMessage_resume 9 ''t2'' ''1'' (Resolved replied) sent1))
   \<and> conversations (sendMessage_resume 9 ''t2'' ''1'' (Resolved replied) sent1)
       = [conv1_hi\<lparr>messages := [hi, yo], lastMessage := ''yo''\<rparr>]"
proof -
  have run: "sendMessage_begin 5 ''t1'' ''hi'' state1 = (sent1, Some request1)"
    by (simp add: sendMessage_begin_def trim_def isWhitespace_def appendUser_def userMessage_def
        toString.simps digit_def conversationHistory_def fullMessage_def context_str_def
        slice_from_end_def)
  have before: "list_all lastMessage_mirror (conversations state1)"
    by (simp add: lastMessage_mirror_def)
  from lastMessage_after_append [OF run, where ?st2.0 = sent1] before
  have sent: "list_all lastMessage_mirror (conversations sent1)"
    by blast
  from lastMessage_after_append
         [OF run, where ?st2.0 = sent1 and now' = 9 and stamp' = "''t2''" and cid = "''1''"
            and data = replied] sent
  have replied: "list_all lastMessage_mirror
        (conversations (sendMessage_resume 9 ''t2'' ''1'' (Resolved replied) sent1))"
    by blast
  have result: "conversations (sendMessage_resume 9 ''t2'' ''1'' (Resolved replied) sent1)
       = [conv1_hi\<lparr>messages := [hi, yo], lastMessage := ''yo''\<rparr>]"
    by (simp add: sendMessage_resume_def appendAgent_def agentMessage_def agentResponseText_def
        or_js_def toString.simps digit_def)
  from run before sent replied result show ?thesis by blast
qed

text \<open>
  C2, as the specification states it, fails on a stored text that does not parse:
  nothing catches what \<open>JSON.parse\<close> throws, and mounting ends with the \<open>SyntaxError\<close>.
\<close>

theorem startup_counterexample:
  "mount \<lparr>item = Some (Malformed ''{''), calls = []\<rparr>
     = (Inl SyntaxError, \<lparr>item = Some (Malformed ''{''), calls = [GetItem]\<rparr>)"
  by (simp add: mount_def loadEffect_def)

text \<open>
  C2, amended. Mounting reads the storage exactly once. When nothing is stored, or the
  empty string is, mounting ends with the initial state (empty collection, no active
  conversation) and leaves the stored item as it was. When the stored text parses to a
  collection, mounting ends with that collection, the head entry active when there is one
  and no conversation active when the collection is empty. When the stored text is not
  empty and does not parse, mounting ends with the \<open>SyntaxError\<close> of the parser.
\<close>

theorem startup_load:
  "count_list (calls (snd (mount sto))) GetItem = count_list (calls sto) GetItem + 1
   \<and> (item sto = None \<or> item sto = Some (Malformed [])
        \<longrightarrow> fst (mount sto) = Inr initialState \<and> item (snd (mount sto)) = item sto)
   \<and> (item sto = Some (Serialized []) \<longrightarrow> fst (mount sto) = Inr initialState)
   \<and> (item sto = Some (Serialized (c # cs))
        \<longrightarrow> fst (mount sto)
             = Inr (initialState\<lparr>conversations := c # cs, currentConversationId := Some (id_conv c)\<rparr>))
   \<and> (s \<noteq> [] \<and> item sto = Some (Malformed s) \<longrightarrow> fst (mount sto) = Inl SyntaxError)"
proof -
  have reads: "count_list (calls (snd (mount sto))) GetItem = count_list (calls sto) GetItem + 1"
    by (auto simp: mount_def loadEffect_def saveEffect_def Let_def initialState_def
        split: option.splits blob.splits list.splits)
  have absent: "item sto = None \<or> item sto = Some (Malformed [])
        \<longrightarrow> fst (mount sto) = Inr initialState \<and> item (snd (mount sto)) = item sto"
    by (auto simp: mount_def loadEffect_def saveEffect_def Let_def initialState_def)
  have none: "item sto = Some (Serialized []) \<longrightarrow> fst (mount sto) = Inr initialState"
    by (auto simp: mount_def loadEffect_def saveEffect_def Let_def initialState_def)
  have seeded: "item sto = Some (Serialized (c # cs))
        \<longrightarrow> fst (mount sto)
             = Inr (initialState\<lparr>conversations := c # cs, currentConversationId := Some (id_conv c)\<rparr>)"
    by (auto simp: mount_def loadEffect_def saveEffect_def Let_def initialState_def)
  have thrown: "s \<noteq> [] \<and> item sto = Some (Malformed s) \<longrightarrow> fst (mount sto) = Inl SyntaxError"
    by (auto simp: mount_def loadEffect_def)
  from reads absent none seeded thrown show ?thesis by blast
qed

theorem startup_load_witness:
  "fst (mount \<lparr>item = None, calls = []\<rparr>) = Inr initialState
   \<and> count_list (calls (snd (mount \<lparr>item = None, calls = []\<rparr>))) GetItem = 1
   \<and> fst (mount \<lparr>item = Some (Serialized []), calls = []\<rparr>) = Inr initialState
   \<and> fst (mount \<lparr>item = Some (Serialized [conv1, conv2]), calls = []\<rparr>)
       = Inr (initialState\<lparr>conversations := [conv1, conv2], currentConversationId := Some ''1''\<rparr>)
   \<and> fst (mount \<lparr>item = Some (Malformed ''{''), calls = []\<rparr>) = Inl SyntaxError"
  using startup_load [where sto = "\<lparr>item = None, calls = []\<rparr>"]
    startup_load [where sto = "\<lparr>item = Some (Serialized []), calls = []\<rparr>"]
    startup_load [where sto = "\<lparr>item = Some (Serialized [conv1, conv2]), calls = []\<rparr>"
                    and c = conv1 and cs = "[conv2]"]
    startup_load [where sto = "\<lparr>item = Some (Malformed ''{''), calls = []\<rparr>" and s = "''{''"]
  by simp




text \<open>
  C4, as the specification states it, fails on the delete that empties the collection:
  the save effect writes only a collection that is not empty, so nothing is written and
  the storage still holds the deleted conversation.
\<close>

theorem write_through_counterexample:
  "perform (Delete ''1'') (state1, \<lparr>item = Some (Serialized [conv1]), calls = []\<rparr>)
     = (state1\<lparr>conversations := [], currentConversationId := None\<rparr>,
        \<lparr>item = Some (Serialized [conv1]), calls = []\<rparr>)"
  by (simp add: render_def deleteConversation_def saveEffect_def)

text \<open>
  C4, amended. Every accepted mutation of the collection (create, delete, the user
  append of a send and the append of its follow-up) that leaves the collection not empty
  is followed by one write of the whole new collection; one that leaves the collection
  empty is followed by no write, and the storage stays as it was.
\<close>

theorem write_through:
  assumes "accepted m st" and "perform m (st, sto) = (st', sto')"
  shows "sto' = (if conversations st' = [] then sto
                 else sto\<lparr>item := Some (Serialized (conversations st')),
                          calls := calls sto @ [SetItem (Serialized (conversations st'))]\<rparr>)"
  using assms
  by (cases m) (auto simp: render_def saveEffect_def split: prod.splits option.splits)

theorem write_through_witness:
  "accepted (Create 7 ''t0'') initialState
   \<and> perform (Create 7 ''t0'') (initialState, \<lparr>item = None, calls = []\<rparr>)
       = (createNewConversation 7 ''t0'' initialState,
          \<lparr>item = Some (Serialized (conversations (createNewConversation 7 ''t0'' initialState))),
           calls = [SetItem (Serialized (conversations (createNewConversation 7 ''t0'' initialState)))]\<rparr>)
   \<and> conversations (createNewConversation 7 ''t0'' initialState)
       = [\<lparr>id_conv = ''7'', title = ''New Conversation'', messages = [], createdAt = ''t0'',
           lastMessage = []\<rparr>]"
proof -
  have acc: "accepted (Create 7 ''t0'') initialState" by simp
  have run: "perform (Create 7 ''t0'') (initialState, \<lparr>item = None, calls = []\<rparr>)
       = (createNewConversation 7 ''t0'' initialState,
          saveEffect (conversations (createNewConversation 7 ''t0'' initialState))
            \<lparr>item = None, calls = []\<rparr>)"
    by (simp add: render_def)
  have convs: "conversations (createNewConversation 7 ''t0'' initialState)
       = [\<lparr>id_conv = ''7'', title = ''New Conversation'', messages = [], createdAt = ''t0'',
           lastMessage = []\<rparr>]"
    by (simp add: createNewConversation_def newConversation_def initialState_def toString.simps
        digit_def)
  from write_through [OF acc run] run convs show ?thesis by simp
qed

text \<open>
  C5, as the specification states it, fails when the conversation is deleted while the
  send is in flight: the continuation finds no conversation of the captured id, and the
  reply is appended nowhere.
\<close>

theorem follow_up_counterexample:
  "sendMessage_begin 5 ''t1'' ''hi'' state12 = (sent12, Some request1)
   \<and> deleteConversation ''1'' sent12 = sent12\<lparr>conversations := [conv2], currentConversationId := Some ''2''\<rparr>
   \<and> sendMessage_resume 9 ''t2'' ''1'' (Resolved replied)
        (sent12\<lparr>conversations := [conv2], currentConversationId := Some ''2''\<rparr>)
       = sent12\<lparr>conversations := [conv2], currentConversationId := Some ''2'', isLoading := False\<rparr>"
  by (simp add: sendMessage_begin_def trim_def isWhitespace_def appendUser_def userMessage_def
      toString.simps digit_def conversationHistory_def fullMessage_def context_str_def
      slice_from_end_def deleteConversation_def sendMessage_resume_def appendAgent_def)

text \<open>
  C5, amended. For an accepted send whose active conversation is in the collection, the
  ids of the collection being distinct, the collection gains exactly one user message
  and no agent message when the send begins. When the call settles, on whatever state
  the collection has by then (ids distinct), it gains exactly one agent message (the
  reply, or the apology on failure) if a conversation of the captured id is still there
  and no message, the collection staying as it is, if that conversation was deleted in
  the meantime; no user message is gained, and the selection of that later state plays
  no part.
\<close>

theorem follow_up_exactly_one:
  assumes "sendMessage_begin now stamp messageText st = (st1, Some req)"
    and "distinct (map id_conv (conversations st))"
    and "session_id req \<in> set (map id_conv (conversations st))"
    and "distinct (map id_conv (conversations st2))"
  shows "count_sender User (conversations st1) = count_sender User (conversations st) + 1
       \<and> count_sender Agent (conversations st1) = count_sender Agent (conversations st)
       \<and> count_sender Agent (conversations (sendMessage_resume now' stamp' (session_id req) r st2))
           = count_sender Agent (conversations st2)
             + (if session_id req \<in> set (map id_conv (conversations st2)) then 1 else 0)
       \<and> count_sender User (conversations (sendMessage_resume now' stamp' (session_id req) r st2))
           = count_sender User (conversations st2)
       \<and> (session_id req \<notin> set (map id_conv (conversations st2))
            \<longrightarrow> conversations (sendMessage_resume now' stamp' (session_id req) r st2)
                 = conversations st2)
       \<and> conversations (sendMessage_resume now' stamp' (session_id req) r
                          (st2\<lparr>currentConversationId := sel\<rparr>))
           = conversations (sendMessage_resume now' stamp' (session_id req) r st2)"
proof -
  note st1 = begin_accepted(4) [OF assms(1)]
  have u1: "count_sender User (conversations st1) = count_sender User (conversations st) + 1"
    unfolding st1 appendUser_if
    using count_sender_update [OF assms(2), where s = User and cid = "session_id req" and d = 1]
      assms(3)
    by (simp add: userMessage_def)
  have a1: "count_sender Agent (conversations st1) = count_sender Agent (conversations st)"
    unfolding st1 appendUser_if
    using count_sender_update [OF assms(2), where s = Agent and cid = "session_id req" and d = 0]
    by (simp add: userMessage_def)
  have a2: "count_sender Agent (conversations (sendMessage_resume now' stamp' (session_id req) r st2))
           = count_sender Agent (conversations st2)
             + (if session_id req \<in> set (map id_conv (conversations st2)) then 1 else 0)"
    unfolding resume_conversations
    using count_sender_update [OF assms(4), where s = Agent and cid = "session_id req" and d = 1]
    by (simp add: followUp_sender)
  have u2: "count_sender User (conversations (sendMessage_resume now' stamp' (session_id req) r st2))
           = count_sender User (conversations st2)"
    unfolding resume_conversations
    using count_sender_update [OF assms(4), where s = User and cid = "session_id req" and d = 0]
    by (simp add: followUp_sender)
  have dropped: "session_id req \<notin> set (map id_conv (conversations st2))
            \<longrightarrow> conversations (sendMessage_resume now' stamp' (session_id req) r st2)
                 = conversations st2"
    unfolding resume_conversations by (rule impI) (rule map_if_absent)
  from u1 a1 a2 u2 dropped resume_ignores_selection show ?thesis by blast
qed

theorem follow_up_exactly_one_witness:
  "sendMessage_begin 5 ''t1'' ''hi'' state12 = (sent12, Some request1)
   \<and> distinct (map id_conv (conversations state12))
   \<and> ''1'' \<in> set (map id_conv (conversations state12))
   \<and> distinct (map id_conv (conversations (onClickConversation conv2 sent12)))
   \<and> count_sender User (conversations state12) = 0
   \<and> count_sender User (conversations sent12) = 1
   \<and> count_sender Agent (conversations (onClickConversation conv2 sent12)) = 0
   \<and> count_sender Agent (conversations
         (sendMessage_resume 9 ''t2'' ''1'' (Resolved replied) (onClickConversation conv2 sent12))) = 1
   \<and> conversations (deleteConversation ''1'' sent12) = [conv2]
   \<and> conversations (sendMessage_resume 9 ''t2'' ''1'' (Resolved replied)
                       (deleteConversation ''1'' sent12)) = [conv2]"
proof -
  have run: "sendMessage_begin 5 ''t1'' ''hi'' state12 = (sent12, Some request1)"
    by (simp add: sendMessage_begin_def trim_def isWhitespace_def appendUser_def userMessage_def
        toString.simps digit_def conversationHistory_def fullMessage_def context_str_def
        slice_from_end_def)
  have d1: "distinct (map id_conv (conversations state12))" by simp
  have m1: "session_id request1 \<in> set (map id_conv (conversations state12))" by simp
  have d2: "distinct (map id_conv (conversations (onClickConversation conv2 sent12)))"
    by (simp add: onClickConversation_def)
  have deleted: "conversations (deleteConversation ''1'' sent12) = [conv2]"
    by (simp add: deleteConversation_def)
  then have d3: "distinct (map id_conv (conversations (deleteConversation ''1'' sent12)))"
    by simp
  have before: "count_sender User (conversations state12) = 0"
    "count_sender Agent (conversations (onClickConversation conv2 sent12)) = 0"
    by (simp_all add: count_sender_def onClickConversation_def)
  from follow_up_exactly_one [OF run d1 m1 d2, of 9 "''t2''" "Resolved replied"] before
  have gained: "count_sender User (conversations sent12) = 1"
    "count_sender Agent (conversations
         (sendMessage_resume 9 ''t2'' ''1'' (Resolved replied) (onClickConversation conv2 sent12))) = 1"
    by (simp_all add: onClickConversation_def)
  from follow_up_exactly_one [OF run d1 m1 d3, of 9 "''t2''" "Resolved replied"] deleted
  have dropped: "conversations (sendMessage_resume 9 ''t2'' ''1'' (Resolved replied)
                       (deleteConversation ''1'' sent12)) = [conv2]"
    by simp
  from run d1 d2 before gained deleted dropped show ?thesis by simp
qed

text \<open>
  C8. A conversation just created has the title \<open>New Conversation\<close> and no message. On
  a conversation without messages, the user append that a send performs sets the title
  to the first 50 characters of the text, and whatever appends follow (user, reply or
  error), the title stays that. On a conversation that has a message no run of appends
  changes the title, and an append aimed at another id changes nothing. The handlers
  change conversations by these appends only: a send applies the user append and its
  continuation the reply or the error append, create adds the new conversation in
  front, delete removes entries, and a selection leaves the collection as it is.
\<close>

theorem title_freeze:
  "title (newConversation now stamp) = ''New Conversation''
   \<and> messages (newConversation now stamp) = []
   \<and> (messages c = [] \<and> id_conv c = cid
        \<longrightarrow> title (fold (applyAppend cid) (UserAppend m t # ops) c) = take 50 t)
   \<and> (messages c \<noteq> [] \<longrightarrow> title (fold (applyAppend cid) ops c) = title c)
   \<and> (id_conv c \<noteq> cid \<longrightarrow> fold (applyAppend cid) ops c = c)
   \<and> (sendMessage_begin now stamp messageText st = (st1, Some req)
        \<longrightarrow> conversations st1
             = map (applyAppend (session_id req) (UserAppend (userMessage now stamp messageText) messageText))
                   (conversations st))
   \<and> conversations (sendMessage_resume now stamp cid (Resolved data) st)
       = map (applyAppend cid (AgentAppend (agentMessage now stamp (agentResponseText data))
                                            (agentResponseText data)))
             (conversations st)
   \<and> conversations (sendMessage_resume now stamp cid Thrown st)
       = map (applyAppend cid (ErrorAppend (errorMessage now stamp))) (conversations st)
   \<and> conversations (createNewConversation now stamp st) = newConversation now stamp # conversations st
   \<and> conversations (deleteConversation i st) = filter (\<lambda>c. id_conv c \<noteq> i) (conversations st)
   \<and> conversations (onClickConversation conv st) = conversations st"
proof -
  have created: "title (newConversation now stamp) = ''New Conversation''
      \<and> messages (newConversation now stamp) = []"
    by (simp add: newConversation_def)
  have first: "messages c = [] \<and> id_conv c = cid
        \<longrightarrow> title (fold (applyAppend cid) (UserAppend m t # ops) c) = take 50 t"
  proof
    assume h: "messages c = [] \<and> id_conv c = cid"
    then have "messages (appendUser cid m t c) \<noteq> []" and "title (appendUser cid m t c) = take 50 t"
      by (simp_all add: appendUser_def)
    with title_fold_nonempty [of "appendUser cid m t c" cid ops]
    show "title (fold (applyAppend cid) (UserAppend m t # ops) c) = take 50 t"
      by simp
  qed
  have later: "messages c \<noteq> [] \<longrightarrow> title (fold (applyAppend cid) ops c) = title c"
    by (simp add: title_fold_nonempty)
  have other: "id_conv c \<noteq> cid \<longrightarrow> fold (applyAppend cid) ops c = c"
    by (simp add: fold_other_conversation)
  have send: "sendMessage_begin now stamp messageText st = (st1, Some req)
        \<longrightarrow> conversations st1
             = map (applyAppend (session_id req) (UserAppend (userMessage now stamp messageText) messageText))
                   (conversations st)"
    using begin_accepted(4) [of now stamp messageText st st1 req] by (simp cong: map_cong)
  have reply: "conversations (sendMessage_resume now stamp cid (Resolved data) st)
       = map (applyAppend cid (AgentAppend (agentMessage now stamp (agentResponseText data))
                                            (agentResponseText data)))
             (conversations st)"
    by (simp add: sendMessage_resume_def cong: map_cong)
  have failed: "conversations (sendMessage_resume now stamp cid Thrown st)
       = map (applyAppend cid (ErrorAppend (errorMessage now stamp))) (conversations st)"
    by (simp add: sendMessage_resume_def cong: map_cong)
  have rest: "conversations (createNewConversation now stamp st) = newConversation now stamp # conversations st
   \<and> conversations (deleteConversation i st) = filter (\<lambda>c. id_conv c \<noteq> i) (conversations st)
   \<and> conversations (onClickConversation conv st) = conversations st"
    by (simp add: createNewConversation_def deleteConversation_def onClickConversation_def Let_def)
  from created first later other send reply failed rest show ?thesis by blast
qed

theorem title_freeze_witness:
  "title (fold (applyAppend ''1'') [UserAppend hi ''hi'', AgentAppend yo ''yo'',
                                     UserAppend hi ''a second message''] conv1) = ''hi''
   \<and> messages conv1 = [] \<and> id_conv conv1 = ''1''
   \<and> take 50 ''hi'' = ''hi''
   \<and> title (fold (applyAppend ''1'') [AgentAppend yo ''yo'', UserAppend hi ''a second message'']
               conv1_hi) = ''hi''
   \<and> fold (applyAppend ''1'') [UserAppend hi ''hi'', AgentAppend yo ''yo''] conv2 = conv2
   \<and> sendMessage_begin 5 ''t1'' ''hi'' state12 = (sent12, Some request1)
   \<and> conversations sent12 = map (applyAppend ''1'' (UserAppend hi ''hi'')) (conversations state12)"
proof -
  have run: "sendMessage_begin 5 ''t1'' ''hi'' state12 = (sent12, Some request1)"
    by (simp add: sendMessage_begin_def trim_def isWhitespace_def appendUser_def userMessage_def
        toString.simps digit_def conversationHistory_def fullMessage_def context_str_def
        slice_from_end_def)
  have um: "userMessage 5 ''t1'' ''hi'' = hi"
    by (simp add: userMessage_def toString.simps digit_def)
  from title_freeze [where c = conv1 and cid = "''1''" and m = hi and t = "''hi''"
      and ops = "[AgentAppend yo ''yo'', UserAppend hi ''a second message'']"]
  have first: "title (fold (applyAppend ''1'') [UserAppend hi ''hi'', AgentAppend yo ''yo'',
                                     UserAppend hi ''a second message''] conv1) = ''hi''"
    by simp
  from title_freeze [where c = conv1_hi and cid = "''1''"
      and ops = "[AgentAppend yo ''yo'', UserAppend hi ''a second message'']"]
  have later: "title (fold (applyAppend ''1'') [AgentAppend yo ''yo'', UserAppend hi ''a second message'']
               conv1_hi) = ''hi''"
    by simp
  from title_freeze [where c = conv2 and cid = "''1''"
      and ops = "[UserAppend hi ''hi'', AgentAppend yo ''yo'']"]
  have other: "fold (applyAppend ''1'') [UserAppend hi ''hi'', AgentAppend yo ''yo''] conv2 = conv2"
    by simp
  from title_freeze [where now = 5 and stamp = "''t1''" and messageText = "''hi''" and st = state12
      and ?st1.0 = sent12 and req = request1] run um
  have sent: "conversations sent12 = map (applyAppend ''1'' (UserAppend hi ''hi'')) (conversations state12)"
    by simp
  from first later other run sent show ?thesis by simp
qed

end
